theory Spec2Isabelle
  imports Complex_Main "HOL-Library.Sublist"
begin

section \<open>Strings as Python handles them\<close>

text \<open>
  Python strings are modelled as \<open>string\<close> over ASCII. \<open>str.lower\<close> and
  \<open>str.upper\<close> map the 26 letters and leave every other character alone; on ASCII
  they keep the length of the string.
\<close>

definition lower_char :: "char \<Rightarrow> char" where
  "lower_char c =
     (case map_of (zip ''ABCDEFGHIJKLMNOPQRSTUVWXYZ'' ''abcdefghijklmnopqrstuvwxyz'') c of
        None \<Rightarrow> c | Some l \<Rightarrow> l)"

definition upper_char :: "char \<Rightarrow> char" where
  "upper_char c =
     (case map_of (zip ''abcdefghijklmnopqrstuvwxyz'' ''ABCDEFGHIJKLMNOPQRSTUVWXYZ'') c of
        None \<Rightarrow> c | Some u \<Rightarrow> u)"

definition lower :: "string \<Rightarrow> string" where
  "lower s = map lower_char s"

text \<open>\<open>str.capitalize\<close>: first character upper-cased, the rest lower-cased.\<close>

definition capitalize :: "string \<Rightarrow> string" where
  "capitalize s = (case s of [] \<Rightarrow> [] | c # cs \<Rightarrow> upper_char c # lower cs)"

text \<open>\<open>sub in s\<close> on strings: \<open>sub\<close> occurs in \<open>s\<close> as a contiguous block.\<close>

fun contains :: "string \<Rightarrow> string \<Rightarrow> bool" where
  "contains sub [] = (sub = [])"
| "contains sub (c # cs) = (prefix sub (c # cs) \<or> contains sub cs)"

text \<open>\<open>s.split(sep)\<close> for a separator of one character; the result is never empty.\<close>

fun split_chr :: "char \<Rightarrow> string \<Rightarrow> string list" where
  "split_chr sep [] = [[]]"
| "split_chr sep (c # cs) =
     (if c = sep then [] # split_chr sep cs
      else (case split_chr sep cs of
              [] \<Rightarrow> [[c]]
            | p # ps \<Rightarrow> (c # p) # ps))"

definition is_digit :: "char \<Rightarrow> bool" where
  "is_digit c = (c \<in> set ''0123456789'')"

definition digit_val :: "char \<Rightarrow> nat" where
  "digit_val c = (case map_of (zip ''0123456789'' [0, 1, 2, 3, 4, 5, 6, 7, 8, 9]) c of
                    None \<Rightarrow> 0 | Some d \<Rightarrow> d)"

definition digit_char :: "nat \<Rightarrow> char" where
  "digit_char d = ''0123456789'' ! (d mod 10)"

text \<open>The value of a string of decimal digits, most significant first.\<close>

definition digits_val :: "string \<Rightarrow> nat" where
  "digits_val ds = foldl (\<lambda>acc c. 10 * acc + digit_val c) 0 ds"

text \<open>\<open>str(n)\<close> for an integer, as an f-string renders it.\<close>

fun str_nat :: "nat \<Rightarrow> string" where
  "str_nat n = (if n < 10 then [digit_char n] else str_nat (n div 10) @ [digit_char n])"

declare str_nat.simps [simp del]

definition str_int :: "int \<Rightarrow> string" where
  "str_int i = (if i < 0 then CHR ''-'' # str_nat (nat (- i)) else str_nat (nat i))"

section \<open>Python values and exceptions\<close>

text \<open>
  The exceptions that the modelled code can meet. Each carries the text of \<open>str(e)\<close>.
\<close>

datatype exn =
    ValueError string
  | TypeError string
  | AttributeError string
  | KeyError string
  | RuntimeError string

fun str_exn :: "exn \<Rightarrow> string" where
  "str_exn (ValueError m) = m"
| "str_exn (TypeError m) = m"
| "str_exn (AttributeError m) = m"
| "str_exn (KeyError m) = m"
| "str_exn (RuntimeError m) = m"

fun is_ValueError :: "exn \<Rightarrow> bool" where
  "is_ValueError (ValueError m) = True"
| "is_ValueError e = False"

fun is_TypeError :: "exn \<Rightarrow> bool" where
  "is_TypeError (TypeError m) = True"
| "is_TypeError e = False"

text \<open>
  A dynamically typed value, for the places where the code itself converts its argument
  with \<open>int(...)\<close> inside \<open>try\<close>: \<open>None\<close>, a bool, an int or a string.
\<close>

datatype pyval = PyNone | PyBool bool | PyInt int | PyStr string


text \<open>
  \<open>repr\<close> of a string: single quotes unless the string has a single quote and no
  double quote; backslash, the quote, tab, newline and carriage return are escaped.
\<close>

definition repr_char :: "char \<Rightarrow> char \<Rightarrow> string" where
  "repr_char q c =
     (if c = CHR 0x5C then [CHR 0x5C, CHR 0x5C]
      else if c = q then [CHR 0x5C, q]
      else if c = CHR 0x09 then [CHR 0x5C, CHR ''t'']
      else if c = CHR 0x0A then [CHR 0x5C, CHR ''n'']
      else if c = CHR 0x0D then [CHR 0x5C, CHR ''r'']
      else [c])"

definition repr_str :: "string \<Rightarrow> string" where
  "repr_str s =
     (let q = (if CHR 0x27 \<in> set s \<and> CHR 0x22 \<notin> set s then CHR 0x22 else CHR 0x27)
      in [q] @ concat (map (repr_char q) s) @ [q])"

text \<open>
  \<open>int(s)\<close> for a string, base 10: surrounding whitespace is stripped, one sign is
  allowed, then digits, with single underscores allowed between digits. Anything else
  raises ValueError.
\<close>

definition is_space :: "char \<Rightarrow> bool" where
  "is_space c = (c \<in> set [CHR 0x09, CHR 0x0A, CHR 0x0B, CHR 0x0C, CHR 0x0D,
                            CHR 0x1C, CHR 0x1D, CHR 0x1E, CHR 0x1F, CHR 0x20])"

definition strip :: "string \<Rightarrow> string" where
  "strip s = rev (dropWhile is_space (rev (dropWhile is_space s)))"

text \<open>Digits with single underscores between them; the flag says a digit came last.\<close>

fun int_body_ok :: "bool \<Rightarrow> string \<Rightarrow> bool" where
  "int_body_ok after_digit [] = after_digit"
| "int_body_ok after_digit (c # cs) =
     (if is_digit c then int_body_ok True cs
      else if c = CHR ''_'' \<and> after_digit then (cs \<noteq> [] \<and> is_digit (hd cs) \<and> int_body_ok False cs)
      else False)"

definition int_of_str :: "string \<Rightarrow> exn + int" where
  "int_of_str s =
     (let t = strip s;
          neg = (t \<noteq> [] \<and> hd t = CHR ''-'');
          body = (if t \<noteq> [] \<and> (hd t = CHR ''-'' \<or> hd t = CHR ''+'') then tl t else t)
      in if int_body_ok False body
         then Inr ((if neg then - 1 else 1) * int (digits_val (filter is_digit body)))
         else Inl (ValueError (''invalid literal for int() with base 10: '' @ repr_str s)))"

text \<open>\<open>int(v)\<close>: \<open>None\<close> raises TypeError, a bool is 0 or 1.\<close>

fun py_int :: "pyval \<Rightarrow> exn + int" where
  "py_int PyNone =
     Inl (TypeError ''int() argument must be a string, a bytes-like object or a real number, not NoneType'')"
| "py_int (PyBool b) = Inr (if b then 1 else 0)"
| "py_int (PyInt n) = Inr n"
| "py_int (PyStr s) = int_of_str s"

section \<open>The catalog store (data_manager.py)\<close>

subsection \<open>Restaurant records\<close>

text \<open>
  A restaurant is one object of restaurants.json. \<open>opening_hours\<close> is the dictionary
  from lower-case weekday names to strings, looked up with \<open>map_of\<close>; \<open>tags\<close> may be
  absent (\<open>r.get('tags', [])\<close>).
\<close>

record restaurant =
  rid :: string
  name :: string
  cuisine :: string
  location :: string
  address :: string
  seating_capacity :: int
  opening_hours :: "(string \<times> string) list"
  rating :: string
  description :: string
  tags :: "string list option"

subsection \<open>find_restaurant_by_name\<close>

text \<open>The first loop: the first restaurant whose lowered name equals the lowered query.\<close>

fun exact_match :: "restaurant list \<Rightarrow> string \<Rightarrow> restaurant option" where
  "exact_match [] name_lower = None"
| "exact_match (restaurant # rest) name_lower =
     (if lower (name restaurant) = name_lower then Some restaurant
      else exact_match rest name_lower)"

text \<open>The second loop: all restaurants whose lowered name contains the lowered query.\<close>

fun partial_matches :: "restaurant list \<Rightarrow> string \<Rightarrow> restaurant list" where
  "partial_matches [] name_lower = []"
| "partial_matches (restaurant # rest) name_lower =
     (if contains name_lower (lower (name restaurant))
      then restaurant # partial_matches rest name_lower
      else partial_matches rest name_lower)"

text \<open>The sort key \<open>abs(len(r['name']) - len(name))\<close>.\<close>

definition length_difference :: "string \<Rightarrow> restaurant \<Rightarrow> int" where
  "length_difference query r = \<bar>int (length (name r)) - int (length query)\<bar>"

text \<open>
  \<open>matches.sort(key=...)\<close> is a stable sort, as \<open>sort_key\<close> is; \<open>matches[0]\<close>
  is read only when \<open>matches\<close> is not empty.
\<close>

definition find_restaurant_by_name :: "restaurant list \<Rightarrow> string \<Rightarrow> restaurant option" where
  "find_restaurant_by_name restaurants query =
     (if query = [] then None
      else
        let name_lower = lower query in
        case exact_match restaurants name_lower of
          Some restaurant \<Rightarrow> Some restaurant
        | None \<Rightarrow>
            let matches = partial_matches restaurants name_lower in
            if matches \<noteq> [] then
              (if length matches = 1 then Some (hd matches)
               else Some (hd (sort_key (length_difference query) matches)))
            else None)"

subsection \<open>Dates and times (datetime.strptime)\<close>

text \<open>
  \<open>datetime.strptime\<close> compiles its format to a regular expression, matches it
  against a prefix of the input and then checks that nothing is left over. The
  directives are alternatives of character classes: \<open>%Y\<close> is four digits, \<open>%m\<close>
  is \<open>1[0-2]|0[1-9]|[1-9]\<close>, \<open>%d\<close> is \<open>3[0-1]|[1-2]\d|0[1-9]|[1-9]| [1-9]\<close>,
  \<open>%H\<close> is \<open>2[0-3]|[0-1]\d|\d\<close> and \<open>%M\<close> is \<open>[0-5]\d|\d\<close>.
  A group is a list of alternatives, an alternative a list of classes, a class the
  string of its characters. A raised \<open>ValueError(m)\<close> is the value \<open>Inl m\<close>.
\<close>

fun match_classes :: "string list \<Rightarrow> string \<Rightarrow> (string \<times> string) option" where
  "match_classes [] s = Some ([], s)"
| "match_classes (cl # cls) [] = None"
| "match_classes (cl # cls) (c # cs) =
     (if c \<in> set cl
      then (case match_classes cls cs of
              None \<Rightarrow> None
            | Some (m, rest) \<Rightarrow> Some (c # m, rest))
      else None)"

text \<open>
  Matching a sequence of groups with backtracking: the first alternative of a group
  for which the remaining groups match too.
\<close>

fun match_groups :: "string list list list \<Rightarrow> string list list \<Rightarrow> bool \<Rightarrow> string
                       \<Rightarrow> (string list \<times> string) option" where
  "match_groups [] alts False s = Some ([], s)"
| "match_groups (g # gs) alts False s = match_groups gs g True s"
| "match_groups gs [] True s = None"
| "match_groups gs (alt # alts) True s =
     (case match_classes alt s of
        None \<Rightarrow> match_groups gs alts True s
      | Some (m, rest) \<Rightarrow>
          (case match_groups gs [] False rest of
             None \<Rightarrow> match_groups gs alts True s
           | Some (ms, r) \<Rightarrow> Some (m # ms, r)))"

definition regex_match :: "string list list list \<Rightarrow> string \<Rightarrow> (string list \<times> string) option" where
  "regex_match groups s = match_groups groups [] False s"

definition digit_class :: string where
  "digit_class = ''0123456789''"

definition directive_Y :: "string list list" where
  "directive_Y = [[digit_class, digit_class, digit_class, digit_class]]"

definition directive_m :: "string list list" where
  "directive_m = [[''1'', ''012''], [''0'', ''123456789''], [''123456789'']]"

definition directive_d :: "string list list" where
  "directive_d = [[''3'', ''01''], [''12'', digit_class], [''0'', ''123456789''],
                  [''123456789''], ['' '', ''123456789'']]"

definition directive_H :: "string list list" where
  "directive_H = [[''2'', ''0123''], [''01'', digit_class], [digit_class]]"

definition directive_M :: "string list list" where
  "directive_M = [[''012345'', digit_class], [digit_class]]"

definition literal :: "char \<Rightarrow> string list list" where
  "literal c = [[[c]]]"

definition field_val :: "string \<Rightarrow> nat" where
  "field_val m = digits_val (filter is_digit m)"

definition no_match_error :: "string \<Rightarrow> string \<Rightarrow> string" where
  "no_match_error s fmt =
     ''time data '' @ repr_str s @ '' does not match format '' @ repr_str fmt"

record pydate =
  year :: nat
  month :: nat
  day :: nat

definition is_leap :: "nat \<Rightarrow> bool" where
  "is_leap y = (y mod 4 = 0 \<and> (y mod 100 \<noteq> 0 \<or> y mod 400 = 0))"

definition days_in_month :: "nat \<Rightarrow> nat \<Rightarrow> nat" where
  "days_in_month y m =
     (if m = 2 then (if is_leap y then 29 else 28)
      else if m \<in> {4, 6, 9, 11} then 30 else 31)"

text \<open>\<open>datetime.strptime(date, "%Y-%m-%d").date()\<close>\<close>

definition strptime_date :: "string \<Rightarrow> string + pydate" where
  "strptime_date s =
     (case regex_match [directive_Y, literal CHR ''-'', directive_m, literal CHR ''-'',
                        directive_d] s of
        Some ([y, _, m, _, d], rest) \<Rightarrow>
          if rest \<noteq> [] then Inl (''unconverted data remains: '' @ rest)
          else if field_val y = 0 then Inl ''year 0 is out of range''
          else if days_in_month (field_val y) (field_val m) < field_val d
               then Inl ''day is out of range for month''
          else Inr \<lparr>year = field_val y, month = field_val m, day = field_val d\<rparr>
      | _ \<Rightarrow> Inl (no_match_error s ''%Y-%m-%d''))"

text \<open>A time of day as (hour, minute); \<open>datetime.time\<close> compares lexicographically.\<close>

type_synonym pytime = "nat \<times> nat"

definition time_less :: "pytime \<Rightarrow> pytime \<Rightarrow> bool" where
  "time_less a b = (fst a < fst b \<or> (fst a = fst b \<and> snd a < snd b))"

text \<open>\<open>datetime.strptime(time, "%H:%M").time()\<close>\<close>

definition strptime_time :: "string \<Rightarrow> string + pytime" where
  "strptime_time s =
     (case regex_match [directive_H, literal CHR '':'', directive_M] s of
        Some ([h, _, m], rest) \<Rightarrow>
          if rest \<noteq> [] then Inl (''unconverted data remains: '' @ rest)
          else Inr (field_val h, field_val m)
      | _ \<Rightarrow> Inl (no_match_error s ''%H:%M''))"

text \<open>
  The weekday, as \<open>date.toordinal\<close> and \<open>date.weekday\<close> compute it: day 1 is
  Monday, 1 January of year 1.
\<close>

definition days_before_year :: "nat \<Rightarrow> nat" where
  "days_before_year y = (y - 1) * 365 + (y - 1) div 4 - (y - 1) div 100 + (y - 1) div 400"

definition days_before_month :: "nat \<Rightarrow> nat \<Rightarrow> nat" where
  "days_before_month y m =
     [0, 0, 31, 59, 90, 120, 151, 181, 212, 243, 273, 304, 334] ! m
       + (if m > 2 \<and> is_leap y then 1 else 0)"

definition toordinal :: "pydate \<Rightarrow> nat" where
  "toordinal d = days_before_year (year d) + days_before_month (year d) (month d) + day d"

definition weekday :: "pydate \<Rightarrow> nat" where
  "weekday d = (toordinal d + 6) mod 7"

text \<open>\<open>booking_date.strftime("%A").lower()\<close>\<close>

definition day_of_week_name :: "pydate \<Rightarrow> string" where
  "day_of_week_name d =
     [''monday'', ''tuesday'', ''wednesday'', ''thursday'', ''friday'', ''saturday'',
      ''sunday''] ! weekday d"

subsection \<open>check_availability\<close>

text \<open>
  The dictionary that \<open>check_availability\<close> returns. \<open>available\<close> and \<open>message\<close>
  are always present; the other keys only on some paths.
\<close>

record availability =
  av_available :: bool
  av_message :: string
  av_restaurant :: "string option"
  av_date :: "string option"
  av_time :: "string option"
  av_party_size :: "int option"
  av_opening_hours :: "string option"

definition quote :: string where
  "quote = [CHR 0x27]"

definition not_found_result :: "string \<Rightarrow> availability" where
  "not_found_result restaurant_name =
     \<lparr>av_available = False,
      av_message = ''Restaurant '' @ quote @ restaurant_name @ quote @ '' not found.'',
      av_restaurant = None, av_date = None, av_time = None, av_party_size = None,
      av_opening_hours = None\<rparr>"

definition capacity_result :: "restaurant \<Rightarrow> int \<Rightarrow> availability" where
  "capacity_result restaurant party_size =
     \<lparr>av_available = False,
      av_message = ''Party size of '' @ str_int party_size
                   @ '' exceeds the maximum capacity of ''
                   @ str_int (seating_capacity restaurant) @ ''.'',
      av_restaurant = Some (name restaurant), av_date = None, av_time = None,
      av_party_size = None, av_opening_hours = None\<rparr>"

definition closed_result :: "restaurant \<Rightarrow> string \<Rightarrow> availability" where
  "closed_result restaurant day_of_week =
     \<lparr>av_available = False,
      av_message = name restaurant @ '' is closed on '' @ capitalize day_of_week @ ''.'',
      av_restaurant = Some (name restaurant), av_date = None, av_time = None,
      av_party_size = None, av_opening_hours = None\<rparr>"

definition out_of_hours_result ::
  "restaurant \<Rightarrow> string \<Rightarrow> string \<Rightarrow> string \<Rightarrow> string \<Rightarrow> availability" where
  "out_of_hours_result restaurant open_time_str close_time_str day_of_week hours =
     \<lparr>av_available = False,
      av_message = name restaurant @ '' is only open from '' @ open_time_str @ '' to ''
                   @ close_time_str @ '' on '' @ capitalize day_of_week @ ''.'',
      av_restaurant = Some (name restaurant), av_date = None, av_time = None,
      av_party_size = None, av_opening_hours = Some hours\<rparr>"

definition available_result :: "restaurant \<Rightarrow> string \<Rightarrow> string \<Rightarrow> int \<Rightarrow> availability" where
  "available_result restaurant date time party_size =
     \<lparr>av_available = True,
      av_message = ''Table for '' @ str_int party_size @ '' is available at ''
                   @ name restaurant @ '' on '' @ date @ '' at '' @ time @ ''.'',
      av_restaurant = Some (name restaurant), av_date = Some date, av_time = Some time,
      av_party_size = Some party_size, av_opening_hours = None\<rparr>"

definition fully_booked_result :: "restaurant \<Rightarrow> availability" where
  "fully_booked_result restaurant =
     \<lparr>av_available = False,
      av_message = ''Sorry, '' @ name restaurant
                   @ '' is fully booked at that time. Please try another time.'',
      av_restaurant = Some (name restaurant), av_date = None, av_time = None,
      av_party_size = None, av_opening_hours = None\<rparr>"

definition invalid_format_result :: "string \<Rightarrow> string \<Rightarrow> availability" where
  "invalid_format_result restaurant_name err =
     \<lparr>av_available = False,
      av_message = ''Invalid date or time format: '' @ err,
      av_restaurant = Some restaurant_name, av_date = None, av_time = None,
      av_party_size = None, av_opening_hours = None\<rparr>"

text \<open>
  The last step of the \<open>try\<close> block. \<open>draw\<close> is the value that \<open>random.random()\<close>
  returns, a number in [0, 1). No double of the form k / 2^53 lies between 1/5 and the
  double nearest to 0.2, so \<open>random.random() > 0.2\<close> is \<open>draw > 1/5\<close> on the exact
  values.
\<close>

definition random_decision ::
  "restaurant \<Rightarrow> string \<Rightarrow> string \<Rightarrow> int \<Rightarrow> rat \<Rightarrow> availability" where
  "random_decision restaurant date time party_size draw =
     (let is_available = (draw > 1 / 5) in
      if is_available then available_result restaurant date time party_size
      else fully_booked_result restaurant)"

text \<open>
  The check of the opening hours. \<open>open_time_str, close_time_str = hours.split("-")\<close>
  raises ValueError unless there are exactly two parts; with \<open>"-" in hours\<close> there are
  at least two.
\<close>

definition hours_check ::
  "restaurant \<Rightarrow> string \<Rightarrow> pytime \<Rightarrow> string \<Rightarrow> string \<Rightarrow> int \<Rightarrow> rat
     \<Rightarrow> string + availability" where
  "hours_check restaurant day_of_week booking_time date time party_size draw =
     (let hours = (case map_of (opening_hours restaurant) day_of_week of
                     None \<Rightarrow> [] | Some h \<Rightarrow> h) in
      if CHR ''-'' \<in> set hours then
        (case split_chr CHR ''-'' hours of
           [open_time_str, close_time_str] \<Rightarrow>
             (case strptime_time open_time_str of
                Inl e \<Rightarrow> Inl e
              | Inr open_time \<Rightarrow>
                  (case strptime_time close_time_str of
                     Inl e \<Rightarrow> Inl e
                   | Inr close_time \<Rightarrow>
                       if time_less booking_time open_time \<or> time_less close_time booking_time
                       then Inr (out_of_hours_result restaurant open_time_str close_time_str
                                   day_of_week hours)
                       else Inr (random_decision restaurant date time party_size draw)))
         | _ \<Rightarrow> Inl ''too many values to unpack (expected 2)'')
      else Inr (random_decision restaurant date time party_size draw))"

text \<open>The body of the \<open>try\<close> block: \<open>Inl m\<close> when it raises \<open>ValueError(m)\<close>.\<close>

definition availability_body ::
  "restaurant \<Rightarrow> string \<Rightarrow> string \<Rightarrow> int \<Rightarrow> rat \<Rightarrow> string + availability" where
  "availability_body restaurant date time party_size draw =
     (case strptime_date date of
        Inl e \<Rightarrow> Inl e
      | Inr booking_date \<Rightarrow>
          (case strptime_time time of
             Inl e \<Rightarrow> Inl e
           | Inr booking_time \<Rightarrow>
               if party_size > seating_capacity restaurant
               then Inr (capacity_result restaurant party_size)
               else
                 let day_of_week = day_of_week_name booking_date in
                 if map_of (opening_hours restaurant) day_of_week = Some ''Closed''
                 then Inr (closed_result restaurant day_of_week)
                 else hours_check restaurant day_of_week booking_time date time
                        party_size draw))"

definition check_availability ::
  "restaurant list \<Rightarrow> string \<Rightarrow> string \<Rightarrow> string \<Rightarrow> int \<Rightarrow> rat \<Rightarrow> availability" where
  "check_availability restaurants restaurant_name date time party_size draw =
     (case find_restaurant_by_name restaurants restaurant_name of
        None \<Rightarrow> not_found_result restaurant_name
      | Some restaurant \<Rightarrow>
          (case availability_body restaurant date time party_size draw of
             Inr result \<Rightarrow> result
           | Inl e \<Rightarrow> invalid_format_result restaurant_name e))"

subsection \<open>make_reservation\<close>

record reservation =
  rv_confirmation_code :: string
  rv_restaurant_name :: string
  rv_date :: string
  rv_time :: string
  rv_party_size :: int
  rv_user_name :: string
  rv_user_phone :: string
  rv_created_at :: string

text \<open>The dictionary that \<open>make_reservation\<close> returns.\<close>

record booking =
  bk_success :: bool
  bk_confirmation_code :: "string option"
  bk_message :: string
  bk_restaurant :: string
  bk_date :: "string option"
  bk_time :: "string option"
  bk_party_size :: "int option"
  bk_user_name :: "string option"

text \<open>The state of a DataManager: the catalog and the reservations dictionary.\<close>

record data_manager =
  restaurants :: "restaurant list"
  reservations :: "string \<rightharpoonup> reservation"

text \<open>
  What one call takes from outside the program: the value of \<open>random.random()\<close>, the
  value of \<open>random.randint(10000, 99999)\<close> and the text of
  \<open>datetime.datetime.now().isoformat()\<close>.
\<close>

record draws =
  random_random :: rat
  random_randint :: int
  now_isoformat :: string

definition make_reservation ::
  "data_manager \<Rightarrow> string \<Rightarrow> string \<Rightarrow> string \<Rightarrow> int \<Rightarrow> string \<Rightarrow> string \<Rightarrow> draws
     \<Rightarrow> booking \<times> data_manager" where
  "make_reservation dm restaurant_name date time party_size user_name user_phone d =
     (let availability = check_availability (restaurants dm) restaurant_name date time
                           party_size (random_random d) in
      if \<not> av_available availability then
        (\<lparr>bk_success = False, bk_confirmation_code = None,
          bk_message = av_message availability, bk_restaurant = restaurant_name,
          bk_date = None, bk_time = None, bk_party_size = None, bk_user_name = None\<rparr>,
         dm)
      else
        let confirmation_code = ''RS-'' @ str_int (random_randint d);
            reservation = \<lparr>rv_confirmation_code = confirmation_code,
                           rv_restaurant_name = restaurant_name,
                           rv_date = date, rv_time = time, rv_party_size = party_size,
                           rv_user_name = user_name, rv_user_phone = user_phone,
                           rv_created_at = now_isoformat d\<rparr>
        in (\<lparr>bk_success = True, bk_confirmation_code = Some confirmation_code,
             bk_message = ''Reservation confirmed at '' @ restaurant_name @ '' for ''
                          @ str_int party_size @ '' people on '' @ date @ '' at '' @ time
                          @ ''.'',
             bk_restaurant = restaurant_name, bk_date = Some date, bk_time = Some time,
             bk_party_size = Some party_size, bk_user_name = Some user_name\<rparr>,
            dm\<lparr>reservations := (reservations dm)(confirmation_code \<mapsto> reservation)\<rparr>))"

definition get_reservation :: "data_manager \<Rightarrow> string \<Rightarrow> reservation option" where
  "get_reservation dm confirmation_code = reservations dm confirmation_code"

subsection \<open>get_restaurants\<close>









section \<open>The tool layer (tools.py)\<close>

text \<open>
  What a tool returns: the \<open>{"error": True, "message": m}\<close> dictionary of a failed
  validation, or the dictionary of the catalog store.
\<close>

datatype tool_result =
    ErrorResult string
  | AvailabilityResult availability
  | BookingResult booking

text \<open>
  \<open>restaurant_name\<close>, \<open>date\<close>, \<open>time\<close>, \<open>user_name\<close> and \<open>user_phone\<close> are
  strings, as the signatures and the tool schemas declare them; \<open>party_size\<close> is any
  \<open>pyval\<close>, since the tools convert it themselves with \<open>int(party_size)\<close> under
  \<open>except (ValueError, TypeError)\<close>. An exception that is not caught leaves the
  tool: the value \<open>Inl e\<close>.
\<close>

definition tools_check_availability ::
  "data_manager \<Rightarrow> string \<Rightarrow> string \<Rightarrow> string \<Rightarrow> pyval \<Rightarrow> rat \<Rightarrow> exn + tool_result" where
  "tools_check_availability dm restaurant_name date time party_size draw =
     (case py_int party_size of
        Inl e \<Rightarrow>
          if is_ValueError e \<or> is_TypeError e
          then Inr (ErrorResult ''Invalid party size. Please provide a number.'')
          else Inl e
      | Inr n \<Rightarrow>
          if n \<le> 0 then Inr (ErrorResult ''Party size must be a positive number.'')
          else if date = [] \<or> length (split_chr CHR ''-'' date) \<noteq> 3
          then Inr (ErrorResult ''Invalid date format. Please use YYYY-MM-DD format.'')
          else if time = [] \<or> length (split_chr CHR '':'' time) \<noteq> 2
          then Inr (ErrorResult ''Invalid time format. Please use HH:MM format (24-hour).'')
          else Inr (AvailabilityResult
                      (check_availability (restaurants dm) restaurant_name date time n draw)))"


section \<open>The orchestrator (agent.py)\<close>

subsection \<open>_execute_tool\<close>

text \<open>
  A tool call is the name and the keyword arguments that the model asked for. A
  registered tool is a Python callable: called with keyword arguments in a world
  \<open>'w\<close> (the catalog store and whatever else it reads), it returns a dictionary or
  raises, and leaves a world behind. The registry \<open>TOOL_MAP\<close> is the argument
  \<open>tool_map\<close>.
\<close>

type_synonym kwargs = "(string \<times> pyval) list"

record tool_call =
  tc_name :: string
  tc_args :: kwargs

type_synonym 'w tool_function = "kwargs \<Rightarrow> 'w \<Rightarrow> (exn + tool_result) \<times> 'w"

definition tool_not_found_message :: "string \<Rightarrow> string" where
  "tool_not_found_message function_name = ''Tool '' @ quote @ function_name @ quote @ '' not found.''"

definition tool_failed_message :: "string \<Rightarrow> string" where
  "tool_failed_message function_name =
     ''An error occurred while trying to execute the '' @ function_name @ '' action.''"

definition execute_tool ::
  "(string \<rightharpoonup> 'w tool_function) \<Rightarrow> tool_call \<Rightarrow> 'w \<Rightarrow> tool_result \<times> 'w" where
  "execute_tool tool_map tc w =
     (let function_name = tc_name tc; function_args = tc_args tc in
      case tool_map function_name of
        None \<Rightarrow> (ErrorResult (tool_not_found_message function_name), w)
      | Some tool_function \<Rightarrow>
          (case tool_function function_args w of
             (Inr result, w') \<Rightarrow> (result, w')
           | (Inl e, w') \<Rightarrow> (ErrorResult (tool_failed_message function_name), w')))"

subsection \<open>process_message\<close>

text \<open>
  The response of the model: a list of candidates, the content of a candidate a list
  of parts (or \<open>None\<close>), a part a function call and a text, either of which may be
  missing. \<open>fc_args\<close> is what \<open>dict(function_call.args)\<close> does: the keyword
  arguments, or the exception of the conversion.
\<close>

record function_call =
  fc_name :: string
  fc_args :: "exn + kwargs"

record part =
  part_function_call :: "function_call option"
  part_text :: "string option"

record candidate =
  content :: "part list option"

type_synonym response = "candidate list"

record tool_execution_log =
  log_tool_call :: tool_call
  log_result :: tool_result

text \<open>
  The loop over the parts of the first candidate: the first part with a function call
  of non-empty name ends the loop and clears the text; the text of the other parts is
  accumulated.
\<close>

fun scan_parts :: "part list \<Rightarrow> string \<Rightarrow> string \<times> function_call option" where
  "scan_parts [] final_response_text = (final_response_text, None)"
| "scan_parts (p # ps) final_response_text =
     (case part_function_call p of
        Some fc \<Rightarrow>
          if fc_name fc \<noteq> [] then ([], Some fc)
          else (case part_text p of
                  Some t \<Rightarrow> scan_parts ps (final_response_text @ t)
                | None \<Rightarrow> scan_parts ps final_response_text)
      | None \<Rightarrow>
          (case part_text p of
             Some t \<Rightarrow> scan_parts ps (final_response_text @ t)
           | None \<Rightarrow> scan_parts ps final_response_text))"

definition inspect_response :: "response \<Rightarrow> string \<times> function_call option" where
  "inspect_response resp =
     (case resp of
        [] \<Rightarrow> ([], None)
      | c # _ \<Rightarrow> (case content c of None \<Rightarrow> ([], None) | Some parts \<Rightarrow> scan_parts parts []))"

definition part_text_or_empty :: "part \<Rightarrow> string" where
  "part_text_or_empty p = (case part_text p of None \<Rightarrow> [] | Some t \<Rightarrow> t)"

text \<open>
  The text of the follow-up response. Reading \<open>.parts\<close> of a content that is
  \<open>None\<close> raises inside the inner \<open>try\<close>, whose handler supplies the fallback text.
\<close>

definition followup_text :: "response \<Rightarrow> string" where
  "followup_text follow_up_response =
     (case follow_up_response of
        [] \<Rightarrow> ''OK. What next?''
      | c # _ \<Rightarrow>
          (case content c of
             None \<Rightarrow> ''I encountered an issue processing the tool result. How can I help further?''
           | Some parts \<Rightarrow> concat (map part_text_or_empty parts)))"

definition serialize_failed :: string where
  \<open>serialize_failed = ''{"error": true, "message": "Failed to serialize tool result"}''\<close>

text \<open>
  \<open>json.dumps(tool_result)\<close> is the argument \<open>json_dumps\<close>; a TypeError is replaced
  by the serialised fallback dictionary, any other exception goes on.
\<close>

definition serialize_result :: "(tool_result \<Rightarrow> exn + string) \<Rightarrow> tool_result \<Rightarrow> exn + string" where
  "serialize_result json_dumps tool_result =
     (case json_dumps tool_result of
        Inr s \<Rightarrow> Inr s
      | Inl e \<Rightarrow> if is_TypeError e then Inr serialize_failed else Inl e)"

definition feedback_message :: "string \<Rightarrow> string \<Rightarrow> string" where
  "feedback_message function_name serialized_result =
     ''Tool '' @ quote @ function_name @ quote @ '' executed. Result: '' @ serialized_result"

definition rephrase_message :: string where
  "rephrase_message =
     ''I'm sorry, I couldn't quite process that. Could you please try rephrasing your request?''"

definition technical_difficulties_message :: string where
  "technical_difficulties_message =
     ''I seem to be having some technical difficulties at the moment. Please try again in a little bit!''"

definition final_checks ::
  "string \<Rightarrow> tool_execution_log list \<Rightarrow> string \<times> tool_execution_log list" where
  "final_checks final_response_text tool_execution_logs =
     (if final_response_text = []
         \<or> contains ''cannot fulfill this request'' (lower final_response_text)
      then (rephrase_message, tool_execution_logs)
      else (final_response_text, tool_execution_logs))"

text \<open>
  The body of the outer \<open>try\<close>. The chat with the model is two functions: the answer
  to the user message, and the answer to the continuation turn, given the tool
  feedback that was appended to the history; each returns a response or raises.
  The result is the returned pair, or the exception that leaves the body, together
  with the log as it stood and the world the tool left.
\<close>

definition process_turn ::
  "(string \<rightharpoonup> 'w tool_function) \<Rightarrow> (tool_result \<Rightarrow> exn + string)
     \<Rightarrow> (string \<Rightarrow> exn + response) \<Rightarrow> (string \<Rightarrow> exn + response) \<Rightarrow> string \<Rightarrow> 'w
     \<Rightarrow> (exn + string \<times> tool_execution_log list) \<times> tool_execution_log list \<times> 'w" where
  "process_turn tool_map json_dumps send_user send_followup user_message w =
     (case send_user user_message of
        Inl e \<Rightarrow> (Inl e, [], w)
      | Inr resp \<Rightarrow>
          (case inspect_response resp of
             (final_response_text, None) \<Rightarrow> (Inr (final_checks final_response_text []), [], w)
           | (_, Some fc) \<Rightarrow>
               let tool_args = (case fc_args fc of Inr a \<Rightarrow> a | Inl e \<Rightarrow> []);
                   tc = \<lparr>tc_name = fc_name fc, tc_args = tool_args\<rparr>;
                   executed = execute_tool tool_map tc w;
                   tool_result = fst executed;
                   w' = snd executed;
                   tool_execution_logs = [\<lparr>log_tool_call = tc, log_result = tool_result\<rparr>]
               in
               (case serialize_result json_dumps tool_result of
                  Inl e \<Rightarrow> (Inl e, tool_execution_logs, w')
                | Inr serialized_result \<Rightarrow>
                    (case send_followup (feedback_message (fc_name fc) serialized_result) of
                       Inl e \<Rightarrow> (Inl e, tool_execution_logs, w')
                     | Inr follow_up_response \<Rightarrow>
                         (Inr (final_checks (followup_text follow_up_response)
                                 tool_execution_logs),
                          tool_execution_logs, w')))))"

text \<open>\<open>process_message\<close>: the outer \<open>except Exception\<close> around the body.\<close>

definition process_message ::
  "(string \<rightharpoonup> 'w tool_function) \<Rightarrow> (tool_result \<Rightarrow> exn + string)
     \<Rightarrow> (string \<Rightarrow> exn + response) \<Rightarrow> (string \<Rightarrow> exn + response) \<Rightarrow> string \<Rightarrow> 'w
     \<Rightarrow> (string \<times> tool_execution_log list) \<times> 'w" where
  "process_message tool_map json_dumps send_user send_followup user_message w =
     (case process_turn tool_map json_dumps send_user send_followup user_message w of
        (Inr returned, logs, w') \<Rightarrow> (returned, w')
      | (Inl e, logs, w') \<Rightarrow> ((technical_difficulties_message, []), w'))"

section \<open>Specification-side definitions and example data\<close>

subsection \<open>Name lookup, as the specification words it\<close>



subsection \<open>Search, as the specification words it\<close>



subsection \<open>Tool arguments, as the specification words them\<close>





subsection \<open>A run of bookings\<close>

text \<open>
  One call of \<open>make_reservation\<close>: its arguments and what it draws from outside.
  A process run is a list of calls, each made on the store the previous one left.
\<close>

record request =
  rq_restaurant_name :: string
  rq_date :: string
  rq_time :: string
  rq_party_size :: int
  rq_user_name :: string
  rq_user_phone :: string
  rq_draws :: draws




definition confirmation_code_of :: "int \<Rightarrow> string" where
  "confirmation_code_of n = ''RS-'' @ str_int n"

subsection \<open>A small catalog\<close>

definition pasta_paradise :: restaurant where
  "pasta_paradise =
     \<lparr>rid = ''1'', name = ''Pasta Paradise'', cuisine = ''Italian'', location = ''Downtown'',
      address = ''12 Main Street'', seating_capacity = 40,
      opening_hours = [(''monday'', ''Closed''), (''tuesday'', ''11:00-22:00''),
                       (''wednesday'', ''all day'')],
      rating = ''4.5'', description = ''Fresh pasta and wine'',
      tags = Some [''romantic'', ''family'']\<rparr>"

definition paradise_grill :: restaurant where
  "paradise_grill =
     \<lparr>rid = ''2'', name = ''Paradise Grill'', cuisine = ''American'', location = ''Midtown'',
      address = ''7 Park Avenue'', seating_capacity = 60,
      opening_hours = [(''monday'', ''12:00-23:00''), (''tuesday'', ''12:00-23:00'')],
      rating = ''4.1'', description = ''Steaks and burgers'', tags = None\<rparr>"

definition thai_garden :: restaurant where
  "thai_garden =
     \<lparr>rid = ''3'', name = ''Thai Garden'', cuisine = ''Thai'', location = ''Midtown'',
      address = ''3 River Road, Downtown side'', seating_capacity = 8,
      opening_hours = [(''monday'', ''17:00-22:00'')],
      rating = ''4.8'', description = ''Spicy curries'', tags = Some [''spicy'']\<rparr>"

definition example_catalog :: "restaurant list" where
  "example_catalog = [pasta_paradise, paradise_grill, thai_garden]"

definition example_store :: data_manager where
  "example_store = \<lparr>restaurants = example_catalog, reservations = Map.empty\<rparr>"

definition example_draws :: draws where
  "example_draws = \<lparr>random_random = 1 / 2, random_randint = 12345,
                     now_isoformat = ''2024-01-01T10:00:00''\<rparr>"




text \<open>
  A registry with one tool, for examples: \<open>check_availability\<close> on a store, with the
  draw fixed. Called without one of its four arguments it raises TypeError, as a
  Python call with a missing argument does; the example calls pass strings.
\<close>

definition example_tool :: "data_manager tool_function" where
  "example_tool kw dm =
     (case (map_of kw ''restaurant_name'', map_of kw ''date'', map_of kw ''time'',
            map_of kw ''party_size'') of
        (Some (PyStr n), Some (PyStr dt), Some (PyStr t), Some v) \<Rightarrow>
          (tools_check_availability dm n dt t v (1 / 2), dm)
      | _ \<Rightarrow> (Inl (TypeError ''check_availability() missing required positional arguments''),
              dm))"

definition example_registry :: "string \<rightharpoonup> data_manager tool_function" where
  "example_registry = [''check_availability'' \<mapsto> example_tool]"

definition example_call_args :: kwargs where
  "example_call_args =
     [(''restaurant_name'', PyStr ''paradise''), (''date'', PyStr ''2024-02-06''),
      (''time'', PyStr ''19:00''), (''party_size'', PyInt 4)]"

text \<open>A serialiser that always succeeds, and model answers for a turn.\<close>

definition example_json_dumps :: "tool_result \<Rightarrow> exn + string" where
  "example_json_dumps r = Inr ''{}''"

definition example_response :: response where
  "example_response =
     [\<lparr>content = Some [\<lparr>part_function_call =
                            Some \<lparr>fc_name = ''check_availability'',
                                  fc_args = Inr example_call_args\<rparr>,
                          part_text = None\<rparr>]\<rparr>]"

definition example_send_user :: "string \<Rightarrow> exn + response" where
  "example_send_user user_message = Inr example_response"

definition failing_send :: "string \<Rightarrow> exn + response" where
  "failing_send m = Inl (RuntimeError ''connection reset'')"

section \<open>Rendering integers\<close>








section \<open>Name lookup\<close>









section \<open>Search\<close>










section \<open>Availability\<close>

lemma split_chr_no_sep: "sep \<notin> set s \<Longrightarrow> split_chr sep s = [s]"
  by (induction s) auto

lemma check_availability_resolved:
  assumes "find_restaurant_by_name catalog restaurant_name = Some r"
    and "strptime_date date = Inr d"
    and "strptime_time time = Inr t"
    and "party_size \<le> seating_capacity r"
  shows "check_availability catalog restaurant_name date time party_size draw =
           (if map_of (opening_hours r) (day_of_week_name d) = Some ''Closed''
            then closed_result r (day_of_week_name d)
            else (case hours_check r (day_of_week_name d) t date time party_size draw of
                    Inr result \<Rightarrow> result
                  | Inl e \<Rightarrow> invalid_format_result restaurant_name e))"
  using assms by (simp add: check_availability_def availability_body_def Let_def)

lemma unavailable_results [simp]:
  "\<not> av_available (not_found_result n)"
  "\<not> av_available (capacity_result r k)"
  "\<not> av_available (closed_result r dw)"
  "\<not> av_available (out_of_hours_result r a b dw h)"
  "\<not> av_available (fully_booked_result r)"
  "\<not> av_available (invalid_format_result n e)"
  by (simp_all add: not_found_result_def capacity_result_def closed_result_def
      out_of_hours_result_def fully_booked_result_def invalid_format_result_def)

lemma random_decision_available:
  "av_available (random_decision r date time party_size draw) \<Longrightarrow>
     random_decision r date time party_size draw = available_result r date time party_size"
  by (simp add: random_decision_def split: if_splits)

lemma hours_check_available:
  assumes "hours_check r dw bt date time party_size draw = Inr res"
    and "av_available res"
  shows "res = available_result r date time party_size"
proof -
  from assms have "res = random_decision r date time party_size draw"
    by (auto simp add: hours_check_def Let_def
        split: if_splits list.splits sum.splits)
  with assms(2) random_decision_available show ?thesis by metis
qed

lemma availability_body_available:
  assumes "availability_body r date time party_size draw = Inr res"
    and "av_available res"
  shows "party_size \<le> seating_capacity r \<and> res = available_result r date time party_size"
proof -
  from assms obtain d t where
      "party_size \<le> seating_capacity r"
      "hours_check r (day_of_week_name d) t date time party_size draw = Inr res"
    by (auto simp add: availability_body_def Let_def split: sum.splits if_splits)
  with assms(2) hours_check_available show ?thesis by blast
qed

lemma available_only_after_checks:
  assumes "av_available (check_availability catalog restaurant_name date time party_size draw)"
  shows "\<exists>r. find_restaurant_by_name catalog restaurant_name = Some r
             \<and> party_size \<le> seating_capacity r
             \<and> check_availability catalog restaurant_name date time party_size draw
                 = available_result r date time party_size"
proof (cases "find_restaurant_by_name catalog restaurant_name")
  case None
  with assms show ?thesis by (simp add: check_availability_def)
next
  case (Some r)
  show ?thesis
  proof (cases "availability_body r date time party_size draw")
    case (Inl e)
    with Some assms show ?thesis by (simp add: check_availability_def)
  next
    case (Inr res)
    with Some assms have "av_available res" by (simp add: check_availability_def)
    from availability_body_available [OF Inr this] Some Inr show ?thesis
      by (simp add: check_availability_def)
  qed
qed

subsection \<open>The example catalog, evaluated\<close>

lemma example_find_exact:
  "find_restaurant_by_name example_catalog ''Pasta Paradise'' = Some pasta_paradise"
  by code_simp

lemma example_find_partial:
  "find_restaurant_by_name example_catalog ''paradise'' = Some pasta_paradise"
  by code_simp

lemma example_find_grill:
  "find_restaurant_by_name example_catalog ''Paradise Grill'' = Some paradise_grill"
  by code_simp

lemma example_monday: "strptime_date ''2024-02-05'' = Inr \<lparr>year = 2024, month = 2, day = 5\<rparr>"
  by code_simp

lemma example_tuesday: "strptime_date ''2024-02-06'' = Inr \<lparr>year = 2024, month = 2, day = 6\<rparr>"
  by code_simp

lemma example_wednesday: "strptime_date ''2024-02-07'' = Inr \<lparr>year = 2024, month = 2, day = 7\<rparr>"
  by code_simp

lemma example_weekdays:
  "day_of_week_name \<lparr>year = 2024, month = 2, day = 5\<rparr> = ''monday''"
  "day_of_week_name \<lparr>year = 2024, month = 2, day = 6\<rparr> = ''tuesday''"
  "day_of_week_name \<lparr>year = 2024, month = 2, day = 7\<rparr> = ''wednesday''"
  by (simp_all add: day_of_week_name_def weekday_def toordinal_def days_before_year_def
      days_before_month_def is_leap_def)

lemma example_times:
  "strptime_time ''19:00'' = Inr (19, 0)"
  "strptime_time ''23:30'' = Inr (23, 30)"
  "strptime_time ''11:00'' = Inr (11, 0)"
  "strptime_time ''22:00'' = Inr (22, 0)"
  by code_simp+

lemma example_split: "split_chr CHR ''-'' ''11:00-22:00'' = [''11:00'', ''22:00'']"
  by code_simp

lemma example_hours:
  "map_of (opening_hours pasta_paradise) ''monday'' = Some ''Closed''"
  "map_of (opening_hours pasta_paradise) ''tuesday'' = Some ''11:00-22:00''"
  "map_of (opening_hours pasta_paradise) ''wednesday'' = Some ''all day''"
  "map_of (opening_hours paradise_grill) ''wednesday'' = None"
  by code_simp+

lemma example_capacity:
  "4 \<le> seating_capacity pasta_paradise" "4 \<le> seating_capacity paradise_grill"
  by (simp_all add: pasta_paradise_def paradise_grill_def)

lemma example_hours_check:
  "hours_check pasta_paradise ''tuesday'' (19, 0) ''2024-02-06'' ''19:00'' 4 (1 / 2)
     = Inr (available_result pasta_paradise ''2024-02-06'' ''19:00'' 4)"
  by (simp add: hours_check_def example_hours example_split example_times time_less_def
      random_decision_def Let_def del: split_chr.simps)

lemma example_available:
  "check_availability example_catalog ''paradise'' ''2024-02-06'' ''19:00'' 4 (1 / 2)
     = available_result pasta_paradise ''2024-02-06'' ''19:00'' 4"
  by (simp add: check_availability_resolved
        [OF example_find_partial example_tuesday example_times(1) example_capacity(1)]
      example_weekdays example_hours example_hours_check)

lemma example_closed:
  "check_availability example_catalog ''paradise'' ''2024-02-05'' ''19:00'' 4 (1 / 2)
     = closed_result pasta_paradise ''monday''"
  by (simp add: check_availability_resolved
        [OF example_find_partial example_monday example_times(1) example_capacity(1)]
      example_weekdays example_hours)

lemma example_store_restaurants: "restaurants example_store = example_catalog"
  by (simp add: example_store_def)

subsection \<open>Closed days and opening hours come before the draw\<close>

text \<open>
  Claim C4. When the name resolves to a restaurant, the date and the time parse and
  the party fits, a weekday whose entry is the closed marker always gives the closed
  result, and a time outside an interval entry always gives the out-of-hours result,
  whatever the value of the random draw.
\<close>

theorem closed_and_out_of_hours_short_circuit:
  assumes resolved: "find_restaurant_by_name catalog restaurant_name = Some r"
    and date_ok: "strptime_date date = Inr d"
    and time_ok: "strptime_time time = Inr t"
    and fits: "party_size \<le> seating_capacity r"
  shows "(map_of (opening_hours r) (day_of_week_name d) = Some ''Closed'' \<longrightarrow>
            check_availability catalog restaurant_name date time party_size draw
              = closed_result r (day_of_week_name d))
       \<and> (map_of (opening_hours r) (day_of_week_name d) = Some hours
            \<and> split_chr CHR ''-'' hours = [open_time_str, close_time_str]
            \<and> strptime_time open_time_str = Inr open_time
            \<and> strptime_time close_time_str = Inr close_time
            \<and> (time_less t open_time \<or> time_less close_time t) \<longrightarrow>
            check_availability catalog restaurant_name date time party_size draw
              = out_of_hours_result r open_time_str close_time_str (day_of_week_name d) hours)"
proof (intro conjI impI)
  assume "map_of (opening_hours r) (day_of_week_name d) = Some ''Closed''"
  then show "check_availability catalog restaurant_name date time party_size draw
               = closed_result r (day_of_week_name d)"
    by (simp add: check_availability_resolved [OF resolved date_ok time_ok fits])
next
  assume h: "map_of (opening_hours r) (day_of_week_name d) = Some hours
            \<and> split_chr CHR ''-'' hours = [open_time_str, close_time_str]
            \<and> strptime_time open_time_str = Inr open_time
            \<and> strptime_time close_time_str = Inr close_time
            \<and> (time_less t open_time \<or> time_less close_time t)"
  then have has_sep: "CHR ''-'' \<in> set hours"
    using split_chr_no_sep [of "CHR ''-''" hours] by auto
  then have not_closed: "hours \<noteq> ''Closed''" by auto
  from h has_sep not_closed
  show "check_availability catalog restaurant_name date time party_size draw
          = out_of_hours_result r open_time_str close_time_str (day_of_week_name d) hours"
    by (simp add: check_availability_resolved [OF resolved date_ok time_ok fits]
        hours_check_def)
qed

theorem closed_and_out_of_hours_short_circuit_witness:
  "check_availability example_catalog ''Pasta Paradise'' ''2024-02-05'' ''19:00'' 4 (9 / 10)
     = closed_result pasta_paradise ''monday''
   \<and> check_availability example_catalog ''Pasta Paradise'' ''2024-02-06'' ''23:30'' 4 (9 / 10)
     = out_of_hours_result pasta_paradise ''11:00'' ''22:00'' ''tuesday'' ''11:00-22:00''"
proof -
  have late: "time_less (22, 0) (23, 30)" by (simp add: time_less_def)
  have closed_day:
    "check_availability example_catalog ''Pasta Paradise'' ''2024-02-05'' ''19:00'' 4 (9 / 10)
       = closed_result pasta_paradise ''monday''"
    using closed_and_out_of_hours_short_circuit
            [OF example_find_exact example_monday example_times(1) example_capacity(1),
             THEN conjunct1]
    by (simp add: example_weekdays example_hours)
  have after_hours:
    "check_availability example_catalog ''Pasta Paradise'' ''2024-02-06'' ''23:30'' 4 (9 / 10)
       = out_of_hours_result pasta_paradise ''11:00'' ''22:00'' ''tuesday'' ''11:00-22:00''"
    using closed_and_out_of_hours_short_circuit
            [OF example_find_exact example_tuesday example_times(2) example_capacity(1),
             THEN conjunct2, of "''11:00-22:00''" "''11:00''" "''22:00''" "(11, 0)" "(22, 0)"]
      late
    by (simp add: example_weekdays example_hours example_split example_times)
  from closed_day after_hours show ?thesis by simp
qed

subsection \<open>Entries that are neither the closed marker nor an interval\<close>

text \<open>
  Claim C10. When the opening hours of the resolved restaurant have no entry for the
  weekday, or an entry that is not exactly \<open>Closed\<close> and has no hyphen, neither the
  closed-day check nor the hours check applies: the result is decided by the random
  draw alone, at every time of day.
\<close>

theorem unrecognised_hours_go_to_draw:
  assumes resolved: "find_restaurant_by_name catalog restaurant_name = Some r"
    and date_ok: "strptime_date date = Inr d"
    and time_ok: "strptime_time time = Inr t"
    and fits: "party_size \<le> seating_capacity r"
    and entry: "map_of (opening_hours r) (day_of_week_name d) = None
                \<or> (\<exists>hours. map_of (opening_hours r) (day_of_week_name d) = Some hours
                      \<and> hours \<noteq> ''Closed'' \<and> CHR ''-'' \<notin> set hours)"
  shows "check_availability catalog restaurant_name date time party_size draw =
           (if draw > 1 / 5 then available_result r date time party_size
            else fully_booked_result r)"
proof -
  let ?entry = "map_of (opening_hours r) (day_of_week_name d)"
  from entry have not_closed: "?entry \<noteq> Some ''Closed''" by auto
  from entry have no_sep: "CHR ''-'' \<notin> set (case ?entry of None \<Rightarrow> [] | Some h \<Rightarrow> h)"
    by (cases ?entry) auto
  have "hours_check r (day_of_week_name d) t date time party_size draw
          = Inr (random_decision r date time party_size draw)"
    unfolding hours_check_def Let_def using no_sep by (simp only: if_False)
  with not_closed show ?thesis
    by (simp add: check_availability_resolved [OF resolved date_ok time_ok fits]
        random_decision_def)
qed

theorem unrecognised_hours_go_to_draw_witness:
  "check_availability example_catalog ''Pasta Paradise'' ''2024-02-07'' ''23:30'' 4 (9 / 10)
     = available_result pasta_paradise ''2024-02-07'' ''23:30'' 4
   \<and> check_availability example_catalog ''Paradise Grill'' ''2024-02-07'' ''23:30'' 4 (1 / 10)
     = fully_booked_result paradise_grill"
proof -
  have odd_entry:
    "map_of (opening_hours pasta_paradise) (day_of_week_name \<lparr>year = 2024, month = 2, day = 7\<rparr>) = None
     \<or> (\<exists>hours. map_of (opening_hours pasta_paradise)
                    (day_of_week_name \<lparr>year = 2024, month = 2, day = 7\<rparr>) = Some hours
           \<and> hours \<noteq> ''Closed'' \<and> CHR ''-'' \<notin> set hours)"
    by (simp add: example_weekdays example_hours)
  have no_entry:
    "map_of (opening_hours paradise_grill) (day_of_week_name \<lparr>year = 2024, month = 2, day = 7\<rparr>) = None
     \<or> (\<exists>hours. map_of (opening_hours paradise_grill)
                    (day_of_week_name \<lparr>year = 2024, month = 2, day = 7\<rparr>) = Some hours
           \<and> hours \<noteq> ''Closed'' \<and> CHR ''-'' \<notin> set hours)"
    by (simp add: example_weekdays example_hours)
  show ?thesis
    using unrecognised_hours_go_to_draw
            [OF example_find_exact example_wednesday example_times(2) example_capacity(1)
                odd_entry, of "9 / 10"]
          unrecognised_hours_go_to_draw
            [OF example_find_grill example_wednesday example_times(2) example_capacity(2)
                no_entry, of "1 / 10"]
    by simp
qed

section \<open>Bookings\<close>

lemma make_reservation_unavailable:
  assumes "\<not> av_available (check_availability (restaurants dm) restaurant_name date time
                              party_size (random_random d))"
  shows "make_reservation dm restaurant_name date time party_size user_name user_phone d =
           (\<lparr>bk_success = False, bk_confirmation_code = None,
             bk_message = av_message (check_availability (restaurants dm) restaurant_name date
                                        time party_size (random_random d)),
             bk_restaurant = restaurant_name, bk_date = None, bk_time = None,
             bk_party_size = None, bk_user_name = None\<rparr>, dm)"
  using assms by (simp add: make_reservation_def Let_def)

lemma make_reservation_available:
  assumes "av_available (check_availability (restaurants dm) restaurant_name date time
                           party_size (random_random d))"
  shows "make_reservation dm restaurant_name date time party_size user_name user_phone d =
           (\<lparr>bk_success = True,
             bk_confirmation_code = Some (confirmation_code_of (random_randint d)),
             bk_message = ''Reservation confirmed at '' @ restaurant_name @ '' for ''
                          @ str_int party_size @ '' people on '' @ date @ '' at '' @ time
                          @ ''.'',
             bk_restaurant = restaurant_name, bk_date = Some date, bk_time = Some time,
             bk_party_size = Some party_size, bk_user_name = Some user_name\<rparr>,
            dm\<lparr>reservations := (reservations dm)
                 (confirmation_code_of (random_randint d) \<mapsto>
                    \<lparr>rv_confirmation_code = confirmation_code_of (random_randint d),
                     rv_restaurant_name = restaurant_name,
                     rv_date = date, rv_time = time, rv_party_size = party_size,
                     rv_user_name = user_name, rv_user_phone = user_phone,
                     rv_created_at = now_isoformat d\<rparr>)\<rparr>)"
  using assms by (simp add: make_reservation_def Let_def confirmation_code_of_def)

text \<open>
  Claim C2. \<open>make_reservation\<close> succeeds exactly when its own call of
  \<open>check_availability\<close> on the same arguments says available. On failure the result
  carries the message of that check and the store is unchanged; on success the party
  size that is echoed and stored does not exceed the seating capacity of the restaurant
  the name resolved to.
\<close>

theorem make_reservation_follows_availability:
  assumes call: "make_reservation dm restaurant_name date time party_size user_name user_phone d
                   = (result, dm')"
  shows "bk_success result
           = av_available (check_availability (restaurants dm) restaurant_name date time
                             party_size (random_random d))
       \<and> (\<not> bk_success result \<longrightarrow>
            bk_message result
              = av_message (check_availability (restaurants dm) restaurant_name date time
                              party_size (random_random d))
            \<and> dm' = dm)
       \<and> (bk_success result \<longrightarrow>
            (\<exists>r code rec.
               find_restaurant_by_name (restaurants dm) restaurant_name = Some r
               \<and> party_size \<le> seating_capacity r
               \<and> bk_party_size result = Some party_size
               \<and> bk_confirmation_code result = Some code
               \<and> reservations dm' code = Some rec
               \<and> rv_party_size rec = party_size))"
proof (cases "av_available (check_availability (restaurants dm) restaurant_name date time
                              party_size (random_random d))")
  case False
  from call make_reservation_unavailable [OF False, of user_name user_phone] False
  show ?thesis by auto
next
  case True
  from available_only_after_checks [OF True] obtain r where
    "find_restaurant_by_name (restaurants dm) restaurant_name = Some r"
    "party_size \<le> seating_capacity r" by blast
  with call make_reservation_available [OF True, of user_name user_phone] True
  show ?thesis by auto
qed

theorem make_reservation_follows_availability_witness:
  "bk_success (fst (make_reservation example_store ''paradise'' ''2024-02-06'' ''19:00'' 4
                      ''Ada'' ''555-0100'' example_draws))
   \<and> (\<exists>r. find_restaurant_by_name example_catalog ''paradise'' = Some r
            \<and> 4 \<le> seating_capacity r)
   \<and> \<not> bk_success (fst (make_reservation example_store ''paradise'' ''2024-02-05'' ''19:00'' 4
                      ''Ada'' ''555-0100'' example_draws))
   \<and> snd (make_reservation example_store ''paradise'' ''2024-02-05'' ''19:00'' 4
            ''Ada'' ''555-0100'' example_draws) = example_store"
proof -
  have draw: "random_random example_draws = 1 / 2" by (simp add: example_draws_def)
  have yes: "av_available (check_availability example_catalog ''paradise'' ''2024-02-06''
                             ''19:00'' 4 (1 / 2))"
    by (simp add: example_available available_result_def)
  have no: "\<not> av_available (check_availability example_catalog ''paradise'' ''2024-02-05''
                             ''19:00'' 4 (1 / 2))"
    by (simp add: example_closed)
  note booked = make_reservation_follows_availability
    [OF prod.collapse [symmetric], of example_store "''paradise''" "''2024-02-06''" "''19:00''" 4
       "''Ada''" "''555-0100''" example_draws]
  note refused = make_reservation_follows_availability
    [OF prod.collapse [symmetric], of example_store "''paradise''" "''2024-02-05''" "''19:00''" 4
       "''Ada''" "''555-0100''" example_draws]
  from booked yes have b1: "bk_success (fst (make_reservation example_store ''paradise''
      ''2024-02-06'' ''19:00'' 4 ''Ada'' ''555-0100'' example_draws))"
    by (simp add: draw example_store_restaurants)
  with booked have b2: "\<exists>r. find_restaurant_by_name example_catalog ''paradise'' = Some r
            \<and> 4 \<le> seating_capacity r"
    by (auto simp add: example_store_restaurants)
  from refused no have r1: "\<not> bk_success (fst (make_reservation example_store ''paradise''
      ''2024-02-05'' ''19:00'' 4 ''Ada'' ''555-0100'' example_draws))"
    by (simp add: draw example_store_restaurants)
  with refused have r2: "snd (make_reservation example_store ''paradise'' ''2024-02-05''
      ''19:00'' 4 ''Ada'' ''555-0100'' example_draws) = example_store"
    by simp
  from b1 b2 r1 r2 show ?thesis by simp
qed

text \<open>
  Claim C9. A successful \<open>make_reservation\<close> echoes and stores the restaurant name
  exactly as the caller gave it, while the availability check it relied on named the
  restaurant that the name resolved to.
\<close>

theorem reservation_records_name_as_given:
  assumes call: "make_reservation dm restaurant_name date time party_size user_name user_phone d
                   = (result, dm')"
    and success: "bk_success result"
  shows "bk_restaurant result = restaurant_name
       \<and> (\<exists>code rec. bk_confirmation_code result = Some code
              \<and> reservations dm' code = Some rec
              \<and> rv_restaurant_name rec = restaurant_name)
       \<and> (\<exists>r. find_restaurant_by_name (restaurants dm) restaurant_name = Some r
              \<and> av_restaurant (check_availability (restaurants dm) restaurant_name date time
                                 party_size (random_random d)) = Some (name r))"
proof -
  have avail: "av_available (check_availability (restaurants dm) restaurant_name date time
                              party_size (random_random d))"
  proof (rule ccontr)
    assume "\<not> ?thesis"
    from make_reservation_unavailable [OF this, of user_name user_phone] call success
    show False by auto
  qed
  from available_only_after_checks [OF avail] obtain r where
    r: "find_restaurant_by_name (restaurants dm) restaurant_name = Some r"
       "check_availability (restaurants dm) restaurant_name date time party_size
          (random_random d) = available_result r date time party_size" by blast
  from r(2) have "av_restaurant (check_availability (restaurants dm) restaurant_name date time
                                 party_size (random_random d)) = Some (name r)"
    by (simp add: available_result_def)
  with r(1) call make_reservation_available [OF avail, of user_name user_phone]
  show ?thesis by auto
qed

theorem reservation_records_name_as_given_witness:
  "bk_restaurant (fst (make_reservation example_store ''paradise'' ''2024-02-06'' ''19:00'' 4
                         ''Ada'' ''555-0100'' example_draws)) = ''paradise''
   \<and> av_restaurant (check_availability example_catalog ''paradise'' ''2024-02-06'' ''19:00'' 4
                      (1 / 2)) = Some ''Pasta Paradise''
   \<and> ''Pasta Paradise'' \<noteq> ''paradise''"
proof -
  have draw: "random_random example_draws = 1 / 2" by (simp add: example_draws_def)
  have yes: "av_available (check_availability example_catalog ''paradise'' ''2024-02-06''
                             ''19:00'' 4 (1 / 2))"
    by (simp add: example_available available_result_def)
  have success: "bk_success (fst (make_reservation example_store ''paradise'' ''2024-02-06''
      ''19:00'' 4 ''Ada'' ''555-0100'' example_draws))"
    using yes
    by (simp add: make_reservation_available draw example_store_restaurants)
  from reservation_records_name_as_given [OF prod.collapse [symmetric] success]
  have "bk_restaurant (fst (make_reservation example_store ''paradise'' ''2024-02-06''
      ''19:00'' 4 ''Ada'' ''555-0100'' example_draws)) = ''paradise''"
    by simp
  moreover have "av_restaurant (check_availability example_catalog ''paradise'' ''2024-02-06''
      ''19:00'' 4 (1 / 2)) = Some ''Pasta Paradise''"
    by (simp add: example_available available_result_def pasta_paradise_def)
  ultimately show ?thesis by simp
qed

section \<open>Confirmation codes in a run\<close>











section \<open>The tool layer\<close>








section \<open>The orchestrator\<close>

text \<open>
  Claim C7. For a name that is not in the registry, \<open>_execute_tool\<close> returns the
  "not found" error without calling anything; when the registered tool raises, it
  returns the "error occurred" error. Both messages are built from the tool name
  alone: nothing of the exception is in the result.
\<close>

theorem execute_tool_contains_failures:
  "(tool_map (tc_name tc) = None \<longrightarrow>
      execute_tool tool_map tc w
        = (ErrorResult (''Tool '' @ quote @ tc_name tc @ quote @ '' not found.''), w))
   \<and> (tool_map (tc_name tc) = Some f \<and> f (tc_args tc) w = (Inl e, w') \<longrightarrow>
      execute_tool tool_map tc w
        = (ErrorResult (''An error occurred while trying to execute the '' @ tc_name tc
                        @ '' action.''), w'))
   \<and> (tool_map (tc_name tc) = Some f \<and> f (tc_args tc) w = (Inr r, w') \<longrightarrow>
      execute_tool tool_map tc w = (r, w'))"
  by (simp add: execute_tool_def tool_not_found_message_def tool_failed_message_def Let_def)

theorem execute_tool_contains_failures_witness:
  "execute_tool example_registry \<lparr>tc_name = ''cancel_reservation'', tc_args = []\<rparr> example_store
     = (ErrorResult (''Tool '' @ quote @ ''cancel_reservation'' @ quote @ '' not found.''),
        example_store)
   \<and> execute_tool example_registry \<lparr>tc_name = ''check_availability'', tc_args = []\<rparr>
       example_store
     = (ErrorResult ''An error occurred while trying to execute the check_availability action.'',
        example_store)"
proof -
  have unknown: "example_registry ''cancel_reservation'' = None"
    by (simp add: example_registry_def)
  have known: "example_registry ''check_availability'' = Some example_tool"
    by (simp add: example_registry_def)
  have raises: "example_tool [] example_store
                  = (Inl (TypeError ''check_availability() missing required positional arguments''),
                     example_store)"
    by (simp add: example_tool_def)
  from execute_tool_contains_failures
    [where tool_map = example_registry
       and tc = "\<lparr>tc_name = ''cancel_reservation'', tc_args = []\<rparr>" and w = example_store]
    unknown
  have a: "execute_tool example_registry \<lparr>tc_name = ''cancel_reservation'', tc_args = []\<rparr>
             example_store
     = (ErrorResult (''Tool '' @ quote @ ''cancel_reservation'' @ quote @ '' not found.''),
        example_store)"
    by simp
  from execute_tool_contains_failures
    [where tool_map = example_registry
       and tc = "\<lparr>tc_name = ''check_availability'', tc_args = []\<rparr>" and w = example_store
       and f = example_tool and w' = example_store
       and e = "TypeError ''check_availability() missing required positional arguments''"]
    known raises
  have b: "execute_tool example_registry \<lparr>tc_name = ''check_availability'', tc_args = []\<rparr>
       example_store
     = (ErrorResult ''An error occurred while trying to execute the check_availability action.'',
        example_store)"
    by simp
  from a b show ?thesis by simp
qed

text \<open>
  Claim C8. When an exception leaves the body of \<open>process_message\<close> (the first call
  of the model fails, or after a tool call the serialisation or the follow-up call of
  the model fails), the function returns the technical-difficulties message with an
  empty tool log, although the log of the turn then holds the entry of the tool call;
  it does not raise.
\<close>

theorem uncaught_failure_gives_generic_reply:
  "(send_user user_message = Inl e \<longrightarrow>
      process_message tool_map json_dumps send_user send_followup user_message w
        = ((technical_difficulties_message, []), w))
   \<and> (send_user user_message = Inr resp
        \<and> inspect_response resp = (initial_text, Some fc)
        \<and> tc = \<lparr>tc_name = fc_name fc,
                 tc_args = (case fc_args fc of Inr a \<Rightarrow> a | Inl x \<Rightarrow> [])\<rparr>
        \<and> (serialize_result json_dumps (fst (execute_tool tool_map tc w)) = Inl e
            \<or> (\<exists>s. serialize_result json_dumps (fst (execute_tool tool_map tc w)) = Inr s
                   \<and> send_followup (feedback_message (fc_name fc) s) = Inl e)) \<longrightarrow>
      process_message tool_map json_dumps send_user send_followup user_message w
        = ((technical_difficulties_message, []), snd (execute_tool tool_map tc w))
      \<and> fst (snd (process_turn tool_map json_dumps send_user send_followup user_message w))
        = [\<lparr>log_tool_call = tc, log_result = fst (execute_tool tool_map tc w)\<rparr>])"
  by (auto simp add: process_message_def process_turn_def Let_def)

theorem uncaught_failure_gives_generic_reply_witness:
  "process_message example_registry example_json_dumps failing_send failing_send ''hello''
     example_store = ((technical_difficulties_message, []), example_store)
   \<and> fst (process_message example_registry example_json_dumps example_send_user failing_send
           ''a table for four at paradise'' example_store)
       = (technical_difficulties_message, [])
   \<and> fst (snd (process_turn example_registry example_json_dumps example_send_user failing_send
                 ''a table for four at paradise'' example_store)) \<noteq> []"
proof -
  let ?fc = "\<lparr>fc_name = ''check_availability'', fc_args = Inr example_call_args\<rparr>"
  let ?tc = "\<lparr>tc_name = ''check_availability'', tc_args = example_call_args\<rparr>"
  have first: "failing_send ''hello'' = Inl (RuntimeError ''connection reset'')"
    by (simp add: failing_send_def)
  have sent: "example_send_user ''a table for four at paradise'' = Inr example_response"
    by (simp add: example_send_user_def)
  have seen: "inspect_response example_response = ([], Some ?fc)"
    by (simp add: inspect_response_def example_response_def)
  have tc: "?tc = \<lparr>tc_name = fc_name ?fc,
                    tc_args = (case fc_args ?fc of Inr a \<Rightarrow> a | Inl x \<Rightarrow> [])\<rparr>"
    by simp
  have later: "serialize_result example_json_dumps (fst (execute_tool example_registry ?tc example_store))
                 = Inl (RuntimeError ''connection reset'')
      \<or> (\<exists>s. serialize_result example_json_dumps
                 (fst (execute_tool example_registry ?tc example_store)) = Inr s
             \<and> failing_send (feedback_message (fc_name ?fc) s)
                 = Inl (RuntimeError ''connection reset''))"
    by (simp add: serialize_result_def example_json_dumps_def failing_send_def)
  from uncaught_failure_gives_generic_reply
    [where send_user = failing_send and user_message = "''hello''"
       and e = "RuntimeError ''connection reset''" and tool_map = example_registry
       and json_dumps = example_json_dumps and send_followup = failing_send
       and w = example_store]
    first
  have a: "process_message example_registry example_json_dumps failing_send failing_send ''hello''
     example_store = ((technical_difficulties_message, []), example_store)"
    by simp
  from uncaught_failure_gives_generic_reply
    [where send_user = example_send_user and user_message = "''a table for four at paradise''"
       and e = "RuntimeError ''connection reset''" and tool_map = example_registry
       and json_dumps = example_json_dumps and send_followup = failing_send
       and w = example_store and resp = example_response and initial_text = "[]" and fc = "?fc"
       and tc = "?tc"]
    sent seen tc later
  have b: "process_message example_registry example_json_dumps example_send_user failing_send
             ''a table for four at paradise'' example_store
        = ((technical_difficulties_message, []),
           snd (execute_tool example_registry ?tc example_store))
      \<and> fst (snd (process_turn example_registry example_json_dumps example_send_user failing_send
                 ''a table for four at paradise'' example_store))
        = [\<lparr>log_tool_call = ?tc,
            log_result = fst (execute_tool example_registry ?tc example_store)\<rparr>]"
    by blast
  from a b show ?thesis by simp
qed

end
